theory Spec2Isabelle
  imports Main
begin

section \<open>Data model\<close>

text \<open>
  The library access layer of ozp-backend (\<open>ozpcenter/api/library/model_access.py\<close>)
  reads and writes rows of the table \<open>ApplicationLibraryEntry\<close> through the Django ORM
  and mirrors its reads through the process-wide cache. The Python objects are records;
  a row carries the listing and the profile it references, as the Python instance does
  (\<open>entry.listing\<close>, \<open>entry.owner\<close>). No function of the module writes to the
  listing or profile tables.
\<close>

record listing =
  listing_id :: int
  listing_title :: string
  is_enabled :: bool
  is_deleted :: bool
  listing_type_title :: "string option"

record profile =
  profile_id :: int
  user_username :: string

record library_entry =
  entry_id :: int
  entry_listing :: listing
  entry_owner :: profile
  entry_folder :: "string option"

text \<open>
  The payload of a peer bookmark notification is a dictionary; each field is what
  \<open>dict.get\<close> returns for it, \<open>None\<close> when the key is absent.
\<close>

record peer_data =
  peer_user_username :: "string option"
  peer_folder_name :: "string option"
  peer_bookmark_listing_ids :: "int list option"

record notification =
  notification_id :: int
  notification_type :: string
  peer :: peer_data

text \<open>
  The value under the key \<open>listing\<close> of a payload entry: a dictionary, of which the
  code reads \<open>.get('id')\<close> (\<open>None\<close> when the dictionary has no \<open>id\<close>), or any other
  JSON value (\<open>null\<close>, a number, a string, a list), which has no method \<open>get\<close>.
\<close>

datatype listing_value = ListingDict "int option" | NotADict

text \<open>
  One dictionary of the payload of \<open>batch_update_user_library_entry\<close>; the payload is
  a list of dictionaries. A field is \<open>None\<close> when its key is absent.
  \<open>de_folder = Some None\<close> is the JSON \<open>null\<close>.
\<close>

record data_entry =
  de_listing :: "listing_value option"
  de_id :: "int option"
  de_folder :: "string option option"

text \<open>
  The dictionary \<open>new_data_entry\<close> that the validation loop builds: the keys
  \<open>listing\<close> and \<open>id\<close> are set on some paths only, the key \<open>folder\<close> always.
\<close>

record new_data_entry =
  nd_listing :: "listing option"
  nd_id :: "int option"
  nd_folder :: "string option"

text \<open>What the cache holds under a key: a pickled model instance or a pickled query set.\<close>

datatype cached = Instance library_entry | QuerySet "library_entry list"

text \<open>The exceptions that leave a function of the module.\<close>

datatype fault =
    MultipleObjectsReturned
  | AttributeError
  | KeyError
  | PyException string

text \<open>The outcome of \<open>QuerySet.get\<close>.\<close>

datatype 'a get_result = DoesNotExist | TooMany | Found 'a

text \<open>
  The collaborators of the module whose code lies outside the files at hand are
  parameters: the listing lookup (with the visibility rules it owns), the profile
  lookup, the notification lookup and the key sanitiser \<open>utils.make_keysafe\<close>. Each
  is taken as a function of its arguments that leaves the state below as it is.
\<close>

record env =
  get_listing_by_id :: "string \<Rightarrow> int option \<Rightarrow> listing option"
  get_profile :: "string \<Rightarrow> profile option"
  get_notification_by_id :: "string \<Rightarrow> int \<Rightarrow> notification option"
  make_keysafe :: "string \<Rightarrow> string"

text \<open>
  The state the module acts on: the cache, the rows of \<open>ApplicationLibraryEntry\<close>, the
  next value of its id sequence, the number of read queries evaluated against the table
  so far, and the log of the calls of \<open>dismiss_notification\<close>.
\<close>

record state =
  cache :: "string \<rightharpoonup> cached"
  entries :: "library_entry list"
  next_id :: int
  db_reads :: nat
  dismissed :: "(notification \<times> string) list"

section \<open>Primitives: cache, ORM, string formatting\<close>

definition cache_get :: "string \<Rightarrow> state \<Rightarrow> cached option" where
  "cache_get key s = cache s key"

definition cache_set :: "string \<Rightarrow> cached \<Rightarrow> state \<Rightarrow> state" where
  "cache_set key v s = s\<lparr>cache := (cache s)(key \<mapsto> v)\<rparr>"

text \<open>Evaluating a query against the table counts one read.\<close>

definition run_query :: "state \<Rightarrow> state" where
  "run_query s = s\<lparr>db_reads := Suc (db_reads s)\<rparr>"

text \<open>\<open>QuerySet.get\<close>: no row, one row, or more than one.\<close>

fun objects_get :: "'a list \<Rightarrow> 'a get_result" where
  "objects_get [] = DoesNotExist"
| "objects_get [x] = Found x"
| "objects_get (x # y # zs) = TooMany"

text \<open>
  \<open>Model.save()\<close> of a fresh instance (no primary key yet): an \<open>INSERT\<close> that takes the
  next id of the sequence.
\<close>

definition save_new :: "listing \<Rightarrow> profile \<Rightarrow> string option \<Rightarrow> state \<Rightarrow> library_entry \<times> state" where
  "save_new l ow f s =
     (let entry = \<lparr>entry_id = next_id s, entry_listing = l, entry_owner = ow, entry_folder = f\<rparr>
      in (entry, s\<lparr>entries := entries s @ [entry], next_id := next_id s + 1\<rparr>))"

text \<open>
  \<open>Model.save()\<close> of an instance that has a primary key: an \<open>UPDATE\<close> of the row with
  that key, and an \<open>INSERT\<close> when there is no such row.
\<close>

definition save_instance :: "library_entry \<Rightarrow> state \<Rightarrow> state" where
  "save_instance inst s =
     (if list_ex (\<lambda>r. entry_id r = entry_id inst) (entries s)
      then s\<lparr>entries := map (\<lambda>r. if entry_id r = entry_id inst then inst else r) (entries s)\<rparr>
      else s\<lparr>entries := entries s @ [inst]\<rparr>)"

text \<open>Python's \<open>str\<close> of an integer.\<close>

fun str_nat :: "nat \<Rightarrow> string" where
  "str_nat n = (if n < 10 then [''0123456789'' ! n]
                else str_nat (n div 10) @ [''0123456789'' ! (n mod 10)])"

declare str_nat.simps [simp del]

definition str_int :: "int \<Rightarrow> string" where
  "str_int i = (if i < 0 then ''-'' @ str_nat (nat (- i)) else str_nat (nat i))"

text \<open>\<open>'{0!s}'.format(x)\<close> of an optional string: \<open>str(None)\<close> is \<open>'None'\<close>.\<close>

definition str_opt :: "string option \<Rightarrow> string" where
  "str_opt x = (case x of None \<Rightarrow> ''None'' | Some t \<Rightarrow> t)"

text \<open>Truth value of an optional string: \<open>None\<close> and \<open>''\<close> are false.\<close>

definition truthy :: "string option \<Rightarrow> bool" where
  "truthy x = (case x of None \<Rightarrow> False | Some t \<Rightarrow> t \<noteq> [])"

text \<open>
  Modelled from the spec: \<open>notification_model_access.dismiss_notification\<close> is not among
  the files at hand; the spec gives it as \<open>dismissNotification(notification, username)\<close>
  returning nothing, which marks the notification consumed. The call is recorded in the
  log.
\<close>

definition dismiss_notification :: "notification \<Rightarrow> string \<Rightarrow> state \<Rightarrow> state" where
  "dismiss_notification n username s = s\<lparr>dismissed := dismissed s @ [(n, username)]\<rparr>"

section \<open>The read operations\<close>

text \<open>
  \<open>get_all_library_entries\<close>. The filter never raises \<open>ObjectDoesNotExist\<close>, so the
  handler of the source is not a branch here. \<open>cache.set\<close> pickles the query set, which
  evaluates it.
\<close>

definition get_all_library_entries :: "state \<Rightarrow> cached option \<times> state" where
  "get_all_library_entries s =
     (let key = ''library_entries'' in
      case cache_get key s of
        None \<Rightarrow>
          (let data = QuerySet (filter (\<lambda>e. \<not> is_deleted (entry_listing e)) (entries s))
           in (Some data, cache_set key data (run_query s)))
      | Some data \<Rightarrow> (Some data, s))"

text \<open>\<open>get_library_entry_by_id\<close>: \<open>.get(id=...)\<close> raises when no row matches.\<close>

definition get_library_entry_by_id :: "int \<Rightarrow> state \<Rightarrow> (fault + cached option) \<times> state" where
  "get_library_entry_by_id library_entry_id s =
     (let key = ''library:'' @ str_int library_entry_id in
      case cache_get key s of
        None \<Rightarrow>
          (case objects_get (filter (\<lambda>e. entry_id e = library_entry_id)
                  (filter (\<lambda>e. \<not> is_deleted (entry_listing e)) (entries s))) of
             Found e \<Rightarrow> (Inr (Some (Instance e)), cache_set key (Instance e) (run_query s))
           | DoesNotExist \<Rightarrow> (Inr None, run_query s)
           | TooMany \<Rightarrow> (Inl MultipleObjectsReturned, run_query s))
      | Some data \<Rightarrow> (Inr (Some data), s))"

text \<open>
  \<open>get_self_application_library\<close>. The parameter \<open>username\<close> is rebound to its key-safe
  form before the key is built and before the rows are filtered.
\<close>

definition get_self_application_library ::
  "env \<Rightarrow> string \<Rightarrow> string option \<Rightarrow> string option \<Rightarrow> state \<Rightarrow> cached option \<times> state" where
  "get_self_application_library ev username0 listing_type folder_name s =
     (let username = make_keysafe ev username0;
          key = ''app_library('' @ str_opt listing_type @ ''):'' @ username in
      case cache_get key s of
        None \<Rightarrow>
          (let d0 = entries s;
               d1 = filter (\<lambda>e. user_username (entry_owner e) = username) d0;
               d2 = filter (\<lambda>e. is_enabled (entry_listing e)) d1;
               d3 = filter (\<lambda>e. \<not> is_deleted (entry_listing e)) d2;
               d4 = (if truthy listing_type
                     then filter (\<lambda>e. listing_type_title (entry_listing e) = listing_type) d3
                     else d3);
               d5 = (if truthy folder_name
                     then filter (\<lambda>e. entry_folder e = folder_name) d4
                     else d4);
               data = QuerySet d5
           in (Some data, cache_set key data (run_query s)))
      | Some data \<Rightarrow> (Some data, s))"

section \<open>The write operations\<close>

definition create_self_user_library_entry ::
  "env \<Rightarrow> string \<Rightarrow> int \<Rightarrow> string option \<Rightarrow> state \<Rightarrow> (fault + library_entry) \<times> state" where
  "create_self_user_library_entry ev username lid folder_name s =
     (let l = get_listing_by_id ev username (Some lid);
          ow = get_profile ev username in
      case l of
        None \<Rightarrow> (Inl (PyException ''Listing or user not found''), s)
      | Some l' \<Rightarrow>
          (case ow of
             None \<Rightarrow> (Inl (PyException ''Listing or user not found''), s)
           | Some ow' \<Rightarrow> (case save_new l' ow' folder_name s of (entry, s') \<Rightarrow> (Inr entry, s'))))"

text \<open>
  The loop of \<open>import_bookmarks\<close> over the listing ids: every exception of a creation is
  caught and dropped.
\<close>

fun import_loop ::
  "env \<Rightarrow> string \<Rightarrow> string option \<Rightarrow> int list \<Rightarrow> library_entry list \<Rightarrow> state
     \<Rightarrow> library_entry list \<times> state" where
  "import_loop ev u f [] validated_data s = (validated_data, s)"
| "import_loop ev u f (i # ids) validated_data s =
     (case create_self_user_library_entry ev u i f s of
        (Inr entry, s') \<Rightarrow> import_loop ev u f ids (validated_data @ [entry]) s'
      | (Inl _, s') \<Rightarrow> import_loop ev u f ids validated_data s')"

text \<open>
  The two messages of \<open>import_bookmarks\<close> that contain an apostrophe (\<open>CHR 0x27\<close>); the
  first is \<open>'...'.format(notification_entry_type)\<close>.
\<close>

definition wrong_type_message :: "string \<Rightarrow> string" where
  "wrong_type_message notification_entry_type =
     ''Notification Entry should be '' @ [CHR 0x27] @ ''PEER.BOOKMARK'' @ [CHR 0x27]
       @ '' but it is '' @ [CHR 0x27] @ notification_entry_type @ [CHR 0x27]"

definition username_mismatch_message :: string where
  "username_mismatch_message =
     ''Target username does not match current user'' @ [CHR 0x27] @ ''s username''"

definition import_bookmarks ::
  "env \<Rightarrow> string \<Rightarrow> int \<Rightarrow> state
     \<Rightarrow> (string list option \<times> library_entry list option) \<times> state" where
  "import_bookmarks ev current_username nid s =
     (case get_notification_by_id ev current_username nid of
        None \<Rightarrow> ((Some [''Could not find Notification Entry''], None), s)
      | Some notification_entry \<Rightarrow>
          (let notification_entry_type = notification_type notification_entry in
           if \<not> notification_entry_type = ''PEER.BOOKMARK''
           then ((Some [wrong_type_message notification_entry_type], None), s)
           else
            (let peer_data = peer notification_entry;
                 peer_username = peer_user_username peer_data;
                 peer_folder = peer_folder_name peer_data;
                 peer_bookmark_list =
                   (case peer_bookmark_listing_ids peer_data of None \<Rightarrow> [] | Some ids \<Rightarrow> ids);
                 errors = (if \<not> peer_username = Some current_username
                           then [username_mismatch_message] else [])
                        @ (if \<not> truthy peer_folder
                           then [''Could not find folder_name entry''] else [])
                        @ (if peer_bookmark_list = []
                           then [''Could not find peer bookmark list entry''] else [])
             in if errors \<noteq> [] then ((Some errors, None), s)
                else
                  (case import_loop ev current_username peer_folder peer_bookmark_list [] s of
                     (validated_data, s1) \<Rightarrow>
                       (let s2 = dismiss_notification notification_entry current_username s1
                        in if errors \<noteq> [] then ((Some errors, None), s2)
                           else ((None, Some validated_data), s2))))))"

text \<open>
  The validation loop of \<open>batch_update_user_library_entry\<close>: one pass over the payload
  that appends to \<open>errors\<close> and, for an entry without error, to \<open>validated_data\<close>.
  When the key \<open>listing\<close> is present, \<open>data_entry.get('listing', {})\<close> is its value,
  and \<open>.get('id')\<close> on a value that is not a dictionary raises \<open>AttributeError\<close>,
  which ends the loop.
\<close>

fun validate_loop ::
  "env \<Rightarrow> string \<Rightarrow> data_entry list \<Rightarrow> new_data_entry list \<Rightarrow> string list
     \<Rightarrow> fault + (new_data_entry list \<times> string list)" where
  "validate_loop ev username [] validated_data errors = Inr (validated_data, errors)"
| "validate_loop ev username (d # ds) validated_data errors =
     (let new0 = \<lparr>nd_listing = None, nd_id = None, nd_folder = None\<rparr> in
      case (case de_listing d of
              None \<Rightarrow> Inr (True, errors @ [''Missing listing from data entry''], new0)
            | Some NotADict \<Rightarrow> Inl AttributeError
            | Some (ListingDict lid) \<Rightarrow>
                (case get_listing_by_id ev username lid of
                   None \<Rightarrow> Inr (True, errors @ [''Listing obj not found''], new0)
                 | Some listing_obj \<Rightarrow>
                     Inr (False, errors, new0\<lparr>nd_listing := Some listing_obj\<rparr>))) of
        Inl e \<Rightarrow> Inl e
      | Inr (error1, errors1, new1) \<Rightarrow>
          (let (error2, errors2, new2) =
                 (case de_id d of
                    None \<Rightarrow> (True, errors1 @ [''Missing id from data entry''], new1)
                  | Some i \<Rightarrow> (error1, errors1, new1\<lparr>nd_id := Some i\<rparr>));
               new3 = (case de_folder d of
                         None \<Rightarrow> new2\<lparr>nd_folder := None\<rparr>
                       | Some f \<Rightarrow> new2\<lparr>nd_folder := f\<rparr>)
           in validate_loop ev username ds
                (if \<not> error2 then validated_data @ [new3] else validated_data) errors2))"

text \<open>
  The apply loop: each validated entry is loaded by \<open>get_library_entry_by_id\<close> and
  written back. Reading a missing key of the dictionary raises \<open>KeyError\<close>; setting an
  attribute on \<open>None\<close>, or calling \<open>save\<close> on a query set, raises \<open>AttributeError\<close>. A
  fault ends the loop in the state reached so far: the rows saved before it stay saved.
\<close>

fun apply_loop :: "new_data_entry list \<Rightarrow> state \<Rightarrow> (fault + unit) \<times> state" where
  "apply_loop [] s = (Inr (), s)"
| "apply_loop (d # ds) s =
     (case nd_id d of
        None \<Rightarrow> (Inl KeyError, s)
      | Some i \<Rightarrow>
          (case get_library_entry_by_id i s of
             (Inl e, s1) \<Rightarrow> (Inl e, s1)
           | (Inr None, s1) \<Rightarrow> (Inl AttributeError, s1)
           | (Inr (Some (QuerySet q)), s1) \<Rightarrow>
               (case nd_listing d of
                  None \<Rightarrow> (Inl KeyError, s1)
                | Some l \<Rightarrow> (Inl AttributeError, s1))
           | (Inr (Some (Instance inst)), s1) \<Rightarrow>
               (case nd_listing d of
                  None \<Rightarrow> (Inl KeyError, s1)
                | Some l \<Rightarrow>
                    apply_loop ds
                      (save_instance (inst\<lparr>entry_folder := nd_folder d, entry_listing := l\<rparr>) s1))))"

definition batch_update_user_library_entry ::
  "env \<Rightarrow> string \<Rightarrow> data_entry list \<Rightarrow> state
     \<Rightarrow> (fault + (string list option \<times> data_entry list option)) \<times> state" where
  "batch_update_user_library_entry ev username data s =
     (case validate_loop ev username data [] [] of
        Inl e \<Rightarrow> (Inl e, s)
      | Inr (validated_data, errors) \<Rightarrow>
          if errors \<noteq> [] then (Inr (Some errors, None), s)
          else (case apply_loop validated_data s of
                  (Inl e, s') \<Rightarrow> (Inl e, s')
                | (Inr _, s') \<Rightarrow> (Inr (None, Some data), s')))"

section \<open>Sample inputs\<close>

definition air_mail :: listing where
  "air_mail = \<lparr>listing_id = 1, listing_title = ''Air Mail'', is_enabled = True,
                is_deleted = False, listing_type_title = Some ''web application''\<rparr>"

definition bread_basket :: listing where
  "bread_basket = \<lparr>listing_id = 2, listing_title = ''Bread Basket'', is_enabled = True,
                    is_deleted = False, listing_type_title = Some ''widget''\<rparr>"

definition bob :: profile where
  "bob = \<lparr>profile_id = 1, user_username = ''bob''\<rparr>"

text \<open>A bookmark notification for bob: listings 1, 9 and 2, of which 9 does not exist.\<close>

definition share_note :: notification where
  "share_note = \<lparr>notification_id = 7, notification_type = ''PEER.BOOKMARK'',
     peer = \<lparr>peer_user_username = Some ''bob'', peer_folder_name = Some ''shared'',
              peer_bookmark_listing_ids = Some [1, 9, 2]\<rparr>\<rparr>"

text \<open>A bookmark notification for bob whose only listing id does not exist.\<close>

definition dead_note :: notification where
  "dead_note = \<lparr>notification_id = 8, notification_type = ''PEER.BOOKMARK'',
     peer = \<lparr>peer_user_username = Some ''bob'', peer_folder_name = Some ''shared'',
              peer_bookmark_listing_ids = Some [9]\<rparr>\<rparr>"

text \<open>A notification of another type.\<close>

definition system_note :: notification where
  "system_note = \<lparr>notification_id = 5, notification_type = ''SYSTEM'',
     peer = \<lparr>peer_user_username = None, peer_folder_name = None,
              peer_bookmark_listing_ids = None\<rparr>\<rparr>"

text \<open>
  Collaborators for the samples: bob sees listings 1 and 2, has a profile and three
  notifications; alice sees listing 1 and has no profile. The sample usernames are
  key-safe already.
\<close>

definition env0 :: env where
  "env0 = \<lparr>
     get_listing_by_id = (\<lambda>u i.
        if u = ''bob'' \<and> i = Some 1 then Some air_mail
        else if u = ''bob'' \<and> i = Some 2 then Some bread_basket
        else if u = ''alice'' \<and> i = Some 1 then Some air_mail
        else None),
     get_profile = (\<lambda>u. if u = ''bob'' then Some bob else None),
     get_notification_by_id = (\<lambda>u n.
        if u = ''bob'' \<and> n = 7 then Some share_note
        else if u = ''bob'' \<and> n = 8 then Some dead_note
        else if u = ''bob'' \<and> n = 5 then Some system_note
        else None),
     make_keysafe = (\<lambda>u. u)\<rparr>"

text \<open>An empty store with an empty cache.\<close>

definition s_empty :: state where
  "s_empty = \<lparr>cache = Map.empty, entries = [], next_id = 1, db_reads = 0, dismissed = []\<rparr>"

definition bookmark1 :: library_entry where
  "bookmark1 = \<lparr>entry_id = 1, entry_listing = air_mail, entry_owner = bob, entry_folder = None\<rparr>"

definition bookmark3 :: library_entry where
  "bookmark3 = \<lparr>entry_id = 3, entry_listing = air_mail, entry_owner = bob,
                 entry_folder = Some ''old''\<rparr>"

text \<open>A store with bob's bookmarks 1 and 3 and an empty cache.\<close>

definition s_two :: state where
  "s_two = \<lparr>cache = Map.empty, entries = [bookmark1, bookmark3], next_id = 4, db_reads = 0,
             dismissed = []\<rparr>"

text \<open>The empty store after \<open>get_all_library_entries\<close> has cached its empty result.\<close>

definition s_cached :: state where
  "s_cached = \<lparr>cache = [''library_entries'' \<mapsto> QuerySet []], entries = [], next_id = 1,
                db_reads = 1, dismissed = []\<rparr>"

text \<open>
  A payload of three entries that moves bookmarks 1, 2 and 3 to the folder \<open>work\<close> and
  the listing 2; every entry has its listing and its id, and there is no bookmark 2.
\<close>

definition move_batch :: "data_entry list" where
  "move_batch =
     [\<lparr>de_listing = Some (ListingDict (Some 2)), de_id = Some 1, de_folder = Some (Some ''work'')\<rparr>,
      \<lparr>de_listing = Some (ListingDict (Some 2)), de_id = Some 2, de_folder = Some (Some ''work'')\<rparr>,
      \<lparr>de_listing = Some (ListingDict (Some 2)), de_id = Some 3, de_folder = Some (Some ''work'')\<rparr>]"

text \<open>The same payload with the second entry pointing at a listing that does not exist.\<close>

definition bad_batch :: "data_entry list" where
  "bad_batch =
     [\<lparr>de_listing = Some (ListingDict (Some 2)), de_id = Some 1, de_folder = Some (Some ''work'')\<rparr>,
      \<lparr>de_listing = Some (ListingDict (Some 9)), de_id = None, de_folder = None\<rparr>,
      \<lparr>de_listing = Some (ListingDict (Some 2)), de_id = Some 3, de_folder = Some (Some ''work'')\<rparr>]"

text \<open>
  A payload of two entries: the first has a listing that resolves and no id, the second
  has \<open>null\<close> under \<open>listing\<close>.
\<close>

definition null_listing_batch :: "data_entry list" where
  "null_listing_batch =
     [\<lparr>de_listing = Some (ListingDict (Some 2)), de_id = None, de_folder = None\<rparr>,
      \<lparr>de_listing = Some NotADict, de_id = Some 3, de_folder = None\<rparr>]"

text \<open>
  The errors the spec (4.4) asks for one entry, with the messages of the source: the
  entry must contain a \<open>listing.id\<close> whose listing resolves for the username, else
  the listing is not found, and it must contain its own \<open>id\<close>. A value under
  \<open>listing\<close> that is not a dictionary contains no \<open>listing.id\<close>.
\<close>

definition spec_entry_errors :: "env \<Rightarrow> string \<Rightarrow> data_entry \<Rightarrow> string list" where
  "spec_entry_errors ev username d =
     (case de_listing d of
        None \<Rightarrow> [''Missing listing from data entry'']
      | Some NotADict \<Rightarrow> [''Listing obj not found'']
      | Some (ListingDict lid) \<Rightarrow>
          (case get_listing_by_id ev username lid of
             None \<Rightarrow> [''Listing obj not found'']
           | Some l \<Rightarrow> []))
     @ (case de_id d of None \<Rightarrow> [''Missing id from data entry''] | Some i \<Rightarrow> [])"

section \<open>Facts about the primitives\<close>

lemma str_int_1: "str_int 1 = ''1''"
  by code_simp

lemma str_int_2: "str_int 2 = ''2''"
  by code_simp

lemma str_int_3: "str_int 3 = ''3''"
  by code_simp

text \<open>The two filters of \<open>get_library_entry_by_id\<close> as one.\<close>

lemma filter_id_live:
  "filter (\<lambda>e. entry_id e = i) (filter (\<lambda>e. \<not> is_deleted (entry_listing e)) xs)
     = filter (\<lambda>e. entry_id e = i \<and> \<not> is_deleted (entry_listing e)) xs"
  by (induction xs) auto

text \<open>The five filters of \<open>get_self_application_library\<close> as one.\<close>

lemma filter_self_library:
  "(if truthy fo then filter (\<lambda>e. entry_folder e = fo) else (\<lambda>x. x))
     ((if truthy lt then filter (\<lambda>e. listing_type_title (entry_listing e) = lt) else (\<lambda>x. x))
        (filter (\<lambda>e. \<not> is_deleted (entry_listing e))
           (filter (\<lambda>e. is_enabled (entry_listing e))
              (filter (\<lambda>e. user_username (entry_owner e) = name) xs))))
     = filter (\<lambda>e. user_username (entry_owner e) = name
                \<and> is_enabled (entry_listing e) \<and> \<not> is_deleted (entry_listing e)
                \<and> (truthy lt \<longrightarrow> listing_type_title (entry_listing e) = lt)
                \<and> (truthy fo \<longrightarrow> entry_folder e = fo)) xs"
  by (induction xs) auto

section \<open>The read operations: cache hits\<close>

lemma get_all_library_entries_hit:
  "cache s ''library_entries'' = Some v \<Longrightarrow> get_all_library_entries s = (Some v, s)"
  by (simp add: get_all_library_entries_def cache_get_def)

lemma get_library_entry_by_id_hit:
  "cache s (''library:'' @ str_int i) = Some v \<Longrightarrow>
     get_library_entry_by_id i s = (Inr (Some v), s)"
  by (simp add: get_library_entry_by_id_def cache_get_def)

lemma get_self_application_library_hit:
  "cache s (''app_library('' @ str_opt lt @ ''):'' @ make_keysafe ev u) = Some v \<Longrightarrow>
     get_self_application_library ev u lt fo s = (Some v, s)"
  by (simp add: get_self_application_library_def cache_get_def)

section \<open>C5: the read-through contract\<close>

text \<open>
  C5, as the spec states it, has every read operation return absent and leave the cache
  alone when the repository finds nothing. \<open>get_all_library_entries\<close> on an empty table
  returns the empty query set, not \<open>None\<close>, and stores it under \<open>library_entries\<close>.
\<close>

theorem get_all_library_entries_empty_counterexample:
  "fst (get_all_library_entries s_empty) = Some (QuerySet [])
   \<and> cache (snd (get_all_library_entries s_empty)) ''library_entries'' = Some (QuerySet [])"
  by (simp add: get_all_library_entries_def s_empty_def cache_get_def cache_set_def
        run_query_def Let_def)

text \<open>
  C5, amended. On a miss each operation computes its result from the rows, stores it
  under its key and returns it; for the two operations that filter, an empty selection
  is such a result. Only \<open>get_library_entry_by_id\<close> has a not-found outcome: when no
  row with a live listing has the id, it returns \<open>None\<close> and leaves the cache as it was.
  On a hit each operation returns the cached value and changes nothing.
\<close>

theorem read_through_cache:
  "(cache s ''library_entries'' = None \<longrightarrow>
      fst (get_all_library_entries s)
        = Some (QuerySet (filter (\<lambda>e. \<not> is_deleted (entry_listing e)) (entries s)))
      \<and> cache (snd (get_all_library_entries s)) ''library_entries''
        = fst (get_all_library_entries s))
   \<and> (\<forall>v. cache s ''library_entries'' = Some v \<longrightarrow> get_all_library_entries s = (Some v, s))
   \<and> (\<forall>e. cache s (''library:'' @ str_int i) = None
          \<and> filter (\<lambda>e. entry_id e = i \<and> \<not> is_deleted (entry_listing e)) (entries s) = [e] \<longrightarrow>
        fst (get_library_entry_by_id i s) = Inr (Some (Instance e))
        \<and> cache (snd (get_library_entry_by_id i s)) (''library:'' @ str_int i)
            = Some (Instance e))
   \<and> (cache s (''library:'' @ str_int i) = None
          \<and> filter (\<lambda>e. entry_id e = i \<and> \<not> is_deleted (entry_listing e)) (entries s) = [] \<longrightarrow>
        fst (get_library_entry_by_id i s) = Inr None
        \<and> cache (snd (get_library_entry_by_id i s)) = cache s)
   \<and> (\<forall>v. cache s (''library:'' @ str_int i) = Some v \<longrightarrow>
        get_library_entry_by_id i s = (Inr (Some v), s))
   \<and> (cache s (''app_library('' @ str_opt lt @ ''):'' @ make_keysafe ev u) = None \<longrightarrow>
        fst (get_self_application_library ev u lt fo s)
          = Some (QuerySet (filter (\<lambda>e. user_username (entry_owner e) = make_keysafe ev u
                \<and> is_enabled (entry_listing e) \<and> \<not> is_deleted (entry_listing e)
                \<and> (truthy lt \<longrightarrow> listing_type_title (entry_listing e) = lt)
                \<and> (truthy fo \<longrightarrow> entry_folder e = fo)) (entries s)))
        \<and> cache (snd (get_self_application_library ev u lt fo s))
              (''app_library('' @ str_opt lt @ ''):'' @ make_keysafe ev u)
          = fst (get_self_application_library ev u lt fo s))
   \<and> (\<forall>v. cache s (''app_library('' @ str_opt lt @ ''):'' @ make_keysafe ev u) = Some v \<longrightarrow>
        get_self_application_library ev u lt fo s = (Some v, s))"
proof (intro conjI allI impI)
  assume "cache s ''library_entries'' = None"
  then show "fst (get_all_library_entries s)
        = Some (QuerySet (filter (\<lambda>e. \<not> is_deleted (entry_listing e)) (entries s)))"
    and "cache (snd (get_all_library_entries s)) ''library_entries''
        = fst (get_all_library_entries s)"
    by (simp_all add: get_all_library_entries_def cache_get_def cache_set_def run_query_def
          Let_def)
next
  fix v assume "cache s ''library_entries'' = Some v"
  then show "get_all_library_entries s = (Some v, s)"
    by (rule get_all_library_entries_hit)
next
  fix e
  assume "cache s (''library:'' @ str_int i) = None
          \<and> filter (\<lambda>e. entry_id e = i \<and> \<not> is_deleted (entry_listing e)) (entries s) = [e]"
  then show "fst (get_library_entry_by_id i s) = Inr (Some (Instance e))"
    and "cache (snd (get_library_entry_by_id i s)) (''library:'' @ str_int i)
           = Some (Instance e)"
    by (simp_all add: get_library_entry_by_id_def cache_get_def cache_set_def run_query_def
          filter_id_live Let_def del: filter_filter)
next
  assume "cache s (''library:'' @ str_int i) = None
          \<and> filter (\<lambda>e. entry_id e = i \<and> \<not> is_deleted (entry_listing e)) (entries s) = []"
  then show "fst (get_library_entry_by_id i s) = Inr None"
    and "cache (snd (get_library_entry_by_id i s)) = cache s"
    by (simp_all add: get_library_entry_by_id_def cache_get_def cache_set_def run_query_def
          filter_id_live Let_def del: filter_filter)
next
  fix v assume "cache s (''library:'' @ str_int i) = Some v"
  then show "get_library_entry_by_id i s = (Inr (Some v), s)"
    by (rule get_library_entry_by_id_hit)
next
  assume miss: "cache s (''app_library('' @ str_opt lt @ ''):'' @ make_keysafe ev u) = None"
  then show "fst (get_self_application_library ev u lt fo s)
          = Some (QuerySet (filter (\<lambda>e. user_username (entry_owner e) = make_keysafe ev u
                \<and> is_enabled (entry_listing e) \<and> \<not> is_deleted (entry_listing e)
                \<and> (truthy lt \<longrightarrow> listing_type_title (entry_listing e) = lt)
                \<and> (truthy fo \<longrightarrow> entry_folder e = fo)) (entries s)))"
    using filter_self_library [of fo lt "make_keysafe ev u" "entries s"]
    by (simp add: get_self_application_library_def cache_get_def Let_def)
  from miss show "cache (snd (get_self_application_library ev u lt fo s))
              (''app_library('' @ str_opt lt @ ''):'' @ make_keysafe ev u)
          = fst (get_self_application_library ev u lt fo s)"
    by (simp add: get_self_application_library_def cache_get_def cache_set_def run_query_def
          Let_def)
next
  fix v assume "cache s (''app_library('' @ str_opt lt @ ''):'' @ make_keysafe ev u) = Some v"
  then show "get_self_application_library ev u lt fo s = (Some v, s)"
    by (rule get_self_application_library_hit)
qed

text \<open>
  The amended contract at work: bookmark 3 is read from the table and cached, and the
  stale empty result cached for \<open>library_entries\<close> is served as it is.
\<close>

theorem read_through_cache_witness:
  "fst (get_library_entry_by_id 3 s_two) = Inr (Some (Instance bookmark3))
   \<and> cache (snd (get_library_entry_by_id 3 s_two)) ''library:3'' = Some (Instance bookmark3)
   \<and> get_all_library_entries s_cached = (Some (QuerySet []), s_cached)"
  using read_through_cache [of s_two 3 None env0 "''bob''" None]
    read_through_cache [of s_cached 3 None env0 "''bob''" None]
  by (simp add: s_two_def s_cached_def str_int_3 bookmark1_def bookmark3_def air_mail_def)

section \<open>Reading twice\<close>

lemma get_library_entry_by_id_twice:
  "fst (get_library_entry_by_id i (snd (get_library_entry_by_id i s)))
     = fst (get_library_entry_by_id i s)"
proof (cases "cache s (''library:'' @ str_int i)")
  case (Some v)
  then show ?thesis by (simp add: get_library_entry_by_id_hit)
next
  case None
  then show ?thesis
    by (cases "objects_get (filter (\<lambda>e. entry_id e = i)
                  (filter (\<lambda>e. \<not> is_deleted (entry_listing e)) (entries s)))")
      (simp_all add: get_library_entry_by_id_def cache_get_def cache_set_def run_query_def
         Let_def del: filter_filter)
qed

lemma get_library_entry_by_id_found_cached:
  assumes "fst (get_library_entry_by_id i s) = Inr (Some v)"
  shows "cache (snd (get_library_entry_by_id i s)) (''library:'' @ str_int i) = Some v"
proof (cases "cache s (''library:'' @ str_int i)")
  case (Some w)
  with assms show ?thesis by (simp add: get_library_entry_by_id_hit)
next
  case None
  with assms show ?thesis
    by (cases "objects_get (filter (\<lambda>e. entry_id e = i)
                  (filter (\<lambda>e. \<not> is_deleted (entry_listing e)) (entries s)))")
      (simp_all add: get_library_entry_by_id_def cache_get_def cache_set_def run_query_def
         Let_def del: filter_filter)
qed

lemma get_library_entry_by_id_absent:
  assumes "fst (get_library_entry_by_id i s) = Inr None"
  shows "snd (get_library_entry_by_id i s) = run_query s"
proof (cases "cache s (''library:'' @ str_int i)")
  case (Some w)
  with assms show ?thesis by (simp add: get_library_entry_by_id_hit)
next
  case None
  with assms show ?thesis
    by (cases "objects_get (filter (\<lambda>e. entry_id e = i)
                  (filter (\<lambda>e. \<not> is_deleted (entry_listing e)) (entries s)))")
      (simp_all add: get_library_entry_by_id_def cache_get_def cache_set_def run_query_def
         Let_def del: filter_filter)
qed

lemma get_self_application_library_cached:
  "cache (snd (get_self_application_library ev u lt fo s))
      (''app_library('' @ str_opt lt @ ''):'' @ make_keysafe ev u)
     = fst (get_self_application_library ev u lt fo s)"
  by (cases "cache s (''app_library('' @ str_opt lt @ ''):'' @ make_keysafe ev u)")
    (simp_all add: get_self_application_library_def cache_get_def cache_set_def run_query_def
       Let_def)

lemma get_self_application_library_some:
  "\<exists>v. fst (get_self_application_library ev u lt fo s) = Some v"
  by (cases "cache s (''app_library('' @ str_opt lt @ ''):'' @ make_keysafe ev u)")
    (simp_all add: get_self_application_library_def cache_get_def cache_set_def run_query_def
       Let_def)

lemma get_self_application_library_again:
  "get_self_application_library ev u lt f2 (snd (get_self_application_library ev u lt f1 s))
     = (fst (get_self_application_library ev u lt f1 s),
        snd (get_self_application_library ev u lt f1 s))"
proof -
  obtain v where v: "fst (get_self_application_library ev u lt f1 s) = Some v"
    using get_self_application_library_some by blast
  then have "cache (snd (get_self_application_library ev u lt f1 s))
      (''app_library('' @ str_opt lt @ ''):'' @ make_keysafe ev u) = Some v"
    using get_self_application_library_cached [of ev u lt f1 s] by simp
  then show ?thesis
    using v by (simp add: get_self_application_library_hit)
qed

section \<open>C6: a repeated read\<close>

text \<open>
  C6, as the spec states it, has the second of two identical calls of
  \<open>get_library_entry_by_id\<close> served from the cache for every id. For an id that is not
  found nothing is cached, and the second call evaluates the query again: the count of
  reads goes from 1 to 2.
\<close>

theorem get_library_entry_by_id_requery_counterexample:
  "fst (get_library_entry_by_id 1 s_empty) = Inr None
   \<and> db_reads (snd (get_library_entry_by_id 1 s_empty)) = 1
   \<and> db_reads (snd (get_library_entry_by_id 1 (snd (get_library_entry_by_id 1 s_empty)))) = 2"
  by (simp add: get_library_entry_by_id_def s_empty_def cache_get_def run_query_def Let_def)

text \<open>
  C6, amended. Two calls of \<open>get_library_entry_by_id\<close> with the same id and nothing in
  between return the same result. When the first call returned an entry, the second is
  served from the cache: it leaves the state, and so the count of reads, as it was. When
  the first call returned \<open>None\<close>, the second evaluates the query once more. For
  \<open>get_self_application_library\<close> the second call always returns the result of the
  first and leaves the state as it was.
\<close>

theorem repeated_read_served_from_cache:
  "fst (get_library_entry_by_id i (snd (get_library_entry_by_id i s)))
      = fst (get_library_entry_by_id i s)
   \<and> (\<forall>v. fst (get_library_entry_by_id i s) = Inr (Some v) \<longrightarrow>
         snd (get_library_entry_by_id i (snd (get_library_entry_by_id i s)))
           = snd (get_library_entry_by_id i s))
   \<and> (fst (get_library_entry_by_id i s) = Inr None \<longrightarrow>
         db_reads (snd (get_library_entry_by_id i (snd (get_library_entry_by_id i s))))
           = Suc (db_reads (snd (get_library_entry_by_id i s))))
   \<and> get_self_application_library ev u lt fo (snd (get_self_application_library ev u lt fo s))
       = get_self_application_library ev u lt fo s"
proof (intro conjI allI impI)
  show "fst (get_library_entry_by_id i (snd (get_library_entry_by_id i s)))
      = fst (get_library_entry_by_id i s)"
    by (rule get_library_entry_by_id_twice)
next
  fix v assume "fst (get_library_entry_by_id i s) = Inr (Some v)"
  then have "cache (snd (get_library_entry_by_id i s)) (''library:'' @ str_int i) = Some v"
    by (rule get_library_entry_by_id_found_cached)
  then show "snd (get_library_entry_by_id i (snd (get_library_entry_by_id i s)))
           = snd (get_library_entry_by_id i s)"
    by (simp add: get_library_entry_by_id_hit)
next
  assume a: "fst (get_library_entry_by_id i s) = Inr None"
  then have s1: "snd (get_library_entry_by_id i s) = run_query s"
    by (rule get_library_entry_by_id_absent)
  from a have "fst (get_library_entry_by_id i (snd (get_library_entry_by_id i s))) = Inr None"
    by (simp add: get_library_entry_by_id_twice)
  then have "snd (get_library_entry_by_id i (snd (get_library_entry_by_id i s)))
      = run_query (snd (get_library_entry_by_id i s))"
    by (rule get_library_entry_by_id_absent)
  then show "db_reads (snd (get_library_entry_by_id i (snd (get_library_entry_by_id i s))))
           = Suc (db_reads (snd (get_library_entry_by_id i s)))"
    by (simp add: run_query_def)
next
  show "get_self_application_library ev u lt fo (snd (get_self_application_library ev u lt fo s))
       = get_self_application_library ev u lt fo s"
    by (simp add: get_self_application_library_again)
qed

text \<open>
  Bookmark 3 exists and is served from the cache the second time; bookmark 2 does not
  exist and is looked up in the table both times.
\<close>

theorem repeated_read_served_from_cache_witness:
  "fst (get_library_entry_by_id 3 s_two) = Inr (Some (Instance bookmark3))
   \<and> db_reads (snd (get_library_entry_by_id 3 s_two)) = 1
   \<and> db_reads (snd (get_library_entry_by_id 3 (snd (get_library_entry_by_id 3 s_two)))) = 1
   \<and> db_reads (snd (get_library_entry_by_id 2 s_two)) = 1
   \<and> db_reads (snd (get_library_entry_by_id 2 (snd (get_library_entry_by_id 2 s_two)))) = 2"
proof -
  have a: "get_library_entry_by_id 3 s_two
             = (Inr (Some (Instance bookmark3)),
                s_two\<lparr>db_reads := 1, cache := [''library:3'' \<mapsto> Instance bookmark3]\<rparr>)"
    by (simp add: get_library_entry_by_id_def s_two_def str_int_3 bookmark1_def bookmark3_def
          air_mail_def cache_get_def cache_set_def run_query_def Let_def)
  have b: "get_library_entry_by_id 2 s_two = (Inr None, s_two\<lparr>db_reads := 1\<rparr>)"
    by (simp add: get_library_entry_by_id_def s_two_def str_int_2 bookmark1_def bookmark3_def
          air_mail_def cache_get_def cache_set_def run_query_def Let_def)
  show ?thesis
    using repeated_read_served_from_cache [of 3 s_two env0 "''bob''" None None]
      repeated_read_served_from_cache [of 2 s_two env0 "''bob''" None None]
    by (simp add: a b)
qed

section \<open>C9: the folder name is not part of the cache key\<close>

text \<open>
  C9. The key of \<open>get_self_application_library\<close> is built from the listing type and
  the key-safe username only. After a call with the folder name \<open>f1\<close> the result is
  stored under that key, and a call with the same username and listing type and any
  folder name \<open>f2\<close> returns this stored result, whatever \<open>f2\<close> would have selected.
\<close>

theorem folder_name_not_in_cache_key:
  "cache (snd (get_self_application_library ev u lt f1 s))
      (''app_library('' @ str_opt lt @ ''):'' @ make_keysafe ev u)
     = fst (get_self_application_library ev u lt f1 s)
   \<and> fst (get_self_application_library ev u lt f1 s) \<noteq> None
   \<and> get_self_application_library ev u lt f2 (snd (get_self_application_library ev u lt f1 s))
       = (fst (get_self_application_library ev u lt f1 s),
          snd (get_self_application_library ev u lt f1 s))"
  using get_self_application_library_some [of ev u lt f1 s]
    get_self_application_library_cached [of ev u lt f1 s]
    get_self_application_library_again [of ev u lt f2 f1 s]
  by auto

text \<open>
  After a call without folder name, the call for the folder \<open>old\<close> returns both of
  bob's bookmarks; on the uncached store it would return bookmark 3 alone.
\<close>

theorem folder_name_not_in_cache_key_witness:
  "fst (get_self_application_library env0 ''bob'' None (Some ''old'')
          (snd (get_self_application_library env0 ''bob'' None None s_two)))
     = Some (QuerySet [bookmark1, bookmark3])
   \<and> fst (get_self_application_library env0 ''bob'' None (Some ''old'') s_two)
     = Some (QuerySet [bookmark3])"
proof -
  have a: "fst (get_self_application_library env0 ''bob'' None None s_two)
             = Some (QuerySet [bookmark1, bookmark3])"
    by (simp add: get_self_application_library_def env0_def s_two_def bookmark1_def
          bookmark3_def air_mail_def bob_def cache_get_def truthy_def str_opt_def Let_def)
  have b: "fst (get_self_application_library env0 ''bob'' None (Some ''old'') s_two)
             = Some (QuerySet [bookmark3])"
    by (simp add: get_self_application_library_def env0_def s_two_def bookmark1_def
          bookmark3_def air_mail_def bob_def cache_get_def truthy_def str_opt_def Let_def)
  show ?thesis
    using folder_name_not_in_cache_key [of env0 "''bob''" None None s_two "Some ''old''"]
    by (simp add: a b)
qed

section \<open>Writes and the cache\<close>

text \<open>
  A creation and an import leave the cache as it is. The apply loop of the batch update
  reads through \<open>get_library_entry_by_id\<close>, which may add a value under a key that had
  none and never touches a key that has one.
\<close>

lemma create_self_user_library_entry_cache:
  "cache (snd (create_self_user_library_entry ev u lid f s)) = cache s"
  by (simp add: create_self_user_library_entry_def save_new_def Let_def
        split: option.splits)

lemma import_loop_cache:
  "cache (snd (import_loop ev u f ids acc s)) = cache s"
proof (induction ids arbitrary: acc s)
  case Nil
  show ?case by simp
next
  case (Cons i ids)
  obtain r s' where c: "create_self_user_library_entry ev u i f s = (r, s')"
    by (cases "create_self_user_library_entry ev u i f s")
  then have "cache s' = cache s"
    using create_self_user_library_entry_cache [of ev u i f s] by simp
  with c Cons.IH show ?case
    by (cases r) simp_all
qed

lemma import_loop_cache_eq:
  "import_loop ev u f ids acc s = (vd, s') \<Longrightarrow> cache s' = cache s"
  using import_loop_cache [of ev u f ids acc s] by simp

lemma import_bookmarks_cache:
  "cache (snd (import_bookmarks ev u nid s)) = cache s"
  by (auto simp: import_bookmarks_def Let_def dismiss_notification_def
        split: option.splits prod.splits dest: import_loop_cache_eq)

lemma get_library_entry_by_id_cache_kept:
  assumes "cache s k = Some v"
  shows "cache (snd (get_library_entry_by_id i s)) k = Some v"
proof (cases "cache s (''library:'' @ str_int i)")
  case (Some w)
  with assms show ?thesis by (simp add: get_library_entry_by_id_hit)
next
  case None
  with assms have "k \<noteq> ''library:'' @ str_int i" by auto
  with assms None show ?thesis
    by (cases "objects_get (filter (\<lambda>e. entry_id e = i)
                  (filter (\<lambda>e. \<not> is_deleted (entry_listing e)) (entries s)))")
      (simp_all add: get_library_entry_by_id_def cache_get_def cache_set_def run_query_def
         Let_def del: filter_filter)
qed

lemma save_instance_cache: "cache (save_instance inst s) = cache s"
  by (simp add: save_instance_def)

lemma apply_loop_cache_kept:
  "cache s k = Some v \<Longrightarrow> cache (snd (apply_loop ds s)) k = Some v"
proof (induction ds arbitrary: s)
  case Nil
  then show ?case by simp
next
  case (Cons d ds)
  show ?case
  proof (cases "nd_id d")
    case None
    with Cons.prems show ?thesis by simp
  next
    case (Some i)
    obtain r s1 where g: "get_library_entry_by_id i s = (r, s1)"
      by (cases "get_library_entry_by_id i s")
    then have k: "cache s1 k = Some v"
      using get_library_entry_by_id_cache_kept [OF Cons.prems, of i] by simp
    then have "cache (snd (apply_loop ds (save_instance inst s1))) k = Some v" for inst
      by (intro Cons.IH) (simp add: save_instance_cache)
    with Some g k show ?thesis
      by (simp split: sum.splits option.splits cached.splits)
  qed
qed

lemma batch_update_user_library_entry_cache_kept:
  assumes "cache s k = Some v"
  shows "cache (snd (batch_update_user_library_entry ev u data s)) k = Some v"
proof (cases "validate_loop ev u data [] []")
  case (Inl e)
  with assms show ?thesis
    by (simp add: batch_update_user_library_entry_def)
next
  case (Inr p)
  obtain vd errs where p: "p = (vd, errs)"
    by (cases p)
  obtain r s' where al: "apply_loop vd s = (r, s')"
    by (cases "apply_loop vd s")
  then have "cache s' k = Some v"
    using apply_loop_cache_kept [OF assms, of vd] by simp
  with Inr p al assms show ?thesis
    by (simp add: batch_update_user_library_entry_def split: sum.splits)
qed

section \<open>C8: writes do not invalidate the cache\<close>

text \<open>
  C8. Let \<open>s'\<close> be the state after \<open>create_self_user_library_entry\<close>, after
  \<open>import_bookmarks\<close> or after \<open>batch_update_user_library_entry\<close> (whether it returns
  or faults), started in \<open>s\<close>. Every value the cache held in \<open>s\<close> it holds in \<open>s'\<close>
  under the same key, and each of the three read operations, when its key was cached in
  \<open>s\<close>, returns in \<open>s'\<close> what it returned in \<open>s\<close>.
\<close>

theorem writes_keep_cached_values:
  assumes "s' = snd (create_self_user_library_entry ev u lid f s)
           \<or> s' = snd (import_bookmarks ev u nid s)
           \<or> s' = snd (batch_update_user_library_entry ev u data s)"
  shows "(\<forall>k v. cache s k = Some v \<longrightarrow> cache s' k = Some v)
         \<and> (\<forall>v. cache s ''library_entries'' = Some v \<longrightarrow>
               fst (get_all_library_entries s') = fst (get_all_library_entries s))
         \<and> (\<forall>i v. cache s (''library:'' @ str_int i) = Some v \<longrightarrow>
               fst (get_library_entry_by_id i s') = fst (get_library_entry_by_id i s))
         \<and> (\<forall>name lt fo v.
               cache s (''app_library('' @ str_opt lt @ ''):'' @ make_keysafe ev name) = Some v \<longrightarrow>
               fst (get_self_application_library ev name lt fo s')
                 = fst (get_self_application_library ev name lt fo s))"
proof -
  have kept: "cache s' k = Some v" if "cache s k = Some v" for k v
    using assms that
    by (auto simp: create_self_user_library_entry_cache import_bookmarks_cache
          batch_update_user_library_entry_cache_kept)
  show ?thesis
  proof (intro conjI allI impI)
    fix k v assume "cache s k = Some v"
    then show "cache s' k = Some v" by (rule kept)
  next
    fix v assume a: "cache s ''library_entries'' = Some v"
    then have "cache s' ''library_entries'' = Some v" by (rule kept)
    with a show "fst (get_all_library_entries s') = fst (get_all_library_entries s)"
      by (simp add: get_all_library_entries_hit)
  next
    fix i v assume a: "cache s (''library:'' @ str_int i) = Some v"
    then have "cache s' (''library:'' @ str_int i) = Some v" by (rule kept)
    with a show "fst (get_library_entry_by_id i s') = fst (get_library_entry_by_id i s)"
      by (simp add: get_library_entry_by_id_hit)
  next
    fix name lt fo v
    assume a: "cache s (''app_library('' @ str_opt lt @ ''):'' @ make_keysafe ev name) = Some v"
    then have "cache s' (''app_library('' @ str_opt lt @ ''):'' @ make_keysafe ev name) = Some v"
      by (rule kept)
    with a show "fst (get_self_application_library ev name lt fo s')
                 = fst (get_self_application_library ev name lt fo s)"
      by (simp add: get_self_application_library_hit)
  qed
qed

text \<open>
  With the empty result of \<open>get_all_library_entries\<close> cached, a bookmark is created
  for bob; the table then has one row and \<open>get_all_library_entries\<close> still returns
  the empty result.
\<close>

theorem writes_keep_cached_values_witness:
  "entries (snd (create_self_user_library_entry env0 ''bob'' 1 None s_cached))
     = [\<lparr>entry_id = 1, entry_listing = air_mail, entry_owner = bob, entry_folder = None\<rparr>]
   \<and> fst (get_all_library_entries
            (snd (create_self_user_library_entry env0 ''bob'' 1 None s_cached)))
     = Some (QuerySet [])"
proof -
  have a: "entries (snd (create_self_user_library_entry env0 ''bob'' 1 None s_cached))
     = [\<lparr>entry_id = 1, entry_listing = air_mail, entry_owner = bob, entry_folder = None\<rparr>]"
    by (simp add: create_self_user_library_entry_def save_new_def env0_def s_cached_def Let_def)
  have b: "fst (get_all_library_entries s_cached) = Some (QuerySet [])"
    by (simp add: get_all_library_entries_def s_cached_def cache_get_def)
  have c: "cache s_cached ''library_entries'' = Some (QuerySet [])"
    by (simp add: s_cached_def)
  show ?thesis
    using writes_keep_cached_values
      [of "snd (create_self_user_library_entry env0 ''bob'' 1 None s_cached)"
          env0 "''bob''" 1 None s_cached 0 "[]"] a b c
    by simp
qed

section \<open>C7: creating one entry\<close>

text \<open>
  C7, as the spec states it, has the failure carry which side was missing. The source
  raises the same exception, with the same message, when the listing is missing (bob and
  listing 9) and when the profile is missing (alice and listing 1).
\<close>

theorem create_self_user_library_entry_same_error_counterexample:
  "get_listing_by_id env0 ''bob'' (Some 9) = None \<and> get_profile env0 ''bob'' = Some bob
   \<and> fst (create_self_user_library_entry env0 ''bob'' 9 None s_empty)
       = Inl (PyException ''Listing or user not found'')
   \<and> get_listing_by_id env0 ''alice'' (Some 1) = Some air_mail \<and> get_profile env0 ''alice'' = None
   \<and> fst (create_self_user_library_entry env0 ''alice'' 1 None s_empty)
       = Inl (PyException ''Listing or user not found'')"
  by (simp add: create_self_user_library_entry_def env0_def Let_def)

text \<open>
  C7, amended. When the listing is not visible to the username or the profile is not
  found, \<open>create_self_user_library_entry\<close> raises the exception
  \<open>Listing or user not found\<close>, the same for both, and the state is as before. When
  both are found it appends one row with that listing, that owner, the given folder and
  the next id, and returns it.
\<close>

theorem create_self_user_library_entry_outcomes:
  "(get_listing_by_id ev username (Some lid) = None \<or> get_profile ev username = None \<longrightarrow>
      create_self_user_library_entry ev username lid folder_name s
        = (Inl (PyException ''Listing or user not found''), s))
   \<and> (\<forall>l ow. get_listing_by_id ev username (Some lid) = Some l
               \<and> get_profile ev username = Some ow \<longrightarrow>
        (\<exists>entry. create_self_user_library_entry ev username lid folder_name s
                    = (Inr entry, s\<lparr>entries := entries s @ [entry],
                                     next_id := next_id s + 1\<rparr>)
                 \<and> entry_listing entry = l \<and> entry_owner entry = ow
                 \<and> entry_folder entry = folder_name \<and> entry_id entry = next_id s))"
  by (auto simp: create_self_user_library_entry_def save_new_def Let_def split: option.splits)

text \<open>
  Alice has no profile: the creation fails and the empty store stays empty. Bob gets a
  fourth row for listing 2 in the folder \<open>work\<close>.
\<close>

theorem create_self_user_library_entry_outcomes_witness:
  "create_self_user_library_entry env0 ''alice'' 1 None s_empty
     = (Inl (PyException ''Listing or user not found''), s_empty)
   \<and> fst (create_self_user_library_entry env0 ''bob'' 2 (Some ''work'') s_two)
       = Inr \<lparr>entry_id = 4, entry_listing = bread_basket, entry_owner = bob,
              entry_folder = Some ''work''\<rparr>
   \<and> entries (snd (create_self_user_library_entry env0 ''bob'' 2 (Some ''work'') s_two))
       = [bookmark1, bookmark3,
          \<lparr>entry_id = 4, entry_listing = bread_basket, entry_owner = bob,
            entry_folder = Some ''work''\<rparr>]"
proof -
  have a: "get_profile env0 ''alice'' = None"
    by (simp add: env0_def)
  have b: "get_listing_by_id env0 ''bob'' (Some 2) = Some bread_basket
           \<and> get_profile env0 ''bob'' = Some bob"
    by (simp add: env0_def)
  have c: "next_id s_two = 4" "entries s_two = [bookmark1, bookmark3]"
    by (simp_all add: s_two_def)
  show ?thesis
    using create_self_user_library_entry_outcomes [of env0 "''alice''" 1 None s_empty]
      create_self_user_library_entry_outcomes [of env0 "''bob''" 2 "Some ''work''" s_two]
      a b c
    by auto
qed

section \<open>The validation loop of the batch update\<close>

text \<open>
  A value under \<open>listing\<close> that is not a dictionary, anywhere in the payload, makes
  the loop raise \<open>AttributeError\<close>, whatever it has collected.
\<close>

lemma validate_loop_fault:
  "\<exists>d \<in> set ds. de_listing d = Some NotADict \<Longrightarrow>
     validate_loop ev u ds vd errs = Inl AttributeError"
proof (induction ds arbitrary: vd errs)
  case Nil
  then show ?case by simp
next
  case (Cons d ds)
  show ?case
  proof (cases "de_listing d = Some NotADict")
    case True
    then show ?thesis by simp
  next
    case False
    with Cons.prems have "\<exists>d \<in> set ds. de_listing d = Some NotADict"
      by auto
    then have "validate_loop ev u ds vd' errs' = Inl AttributeError" for vd' errs'
      by (rule Cons.IH)
    then show ?thesis
      by (simp add: Let_def split: option.splits listing_value.splits prod.splits)
  qed
qed

text \<open>
  On a payload whose listings are dictionaries the loop returns, and its errors are the
  errors of the entries, each taken alone, in the order of the payload: the loop appends
  and never stops early.
\<close>

lemma validate_loop_dicts:
  "\<forall>d \<in> set ds. de_listing d \<noteq> Some NotADict \<Longrightarrow>
     \<exists>vd'. validate_loop ev u ds vd errs
             = Inr (vd', errs @ concat (map (spec_entry_errors ev u) ds))"
proof (induction ds arbitrary: vd errs)
  case Nil
  show ?case by simp
next
  case (Cons d ds)
  then have dict: "de_listing d \<noteq> Some NotADict"
    and rest: "\<forall>d \<in> set ds. de_listing d \<noteq> Some NotADict"
    by auto
  have step: "\<exists>vd'. validate_loop ev u (d # ds) vd errs
                      = validate_loop ev u ds vd' (errs @ spec_entry_errors ev u d)"
    using dict
    by (auto simp: Let_def spec_entry_errors_def
          split: option.splits listing_value.splits)
  then obtain vd1 where
    "validate_loop ev u (d # ds) vd errs
       = validate_loop ev u ds vd1 (errs @ spec_entry_errors ev u d)"
    by blast
  moreover from Cons.IH [OF rest, of vd1 "errs @ spec_entry_errors ev u d"]
  obtain vd2 where
    "validate_loop ev u ds vd1 (errs @ spec_entry_errors ev u d)
       = Inr (vd2, (errs @ spec_entry_errors ev u d) @ concat (map (spec_entry_errors ev u) ds))"
    by blast
  ultimately show ?case
    by (intro exI [of _ vd2]) simp
qed

lemma spec_entry_errors_fails:
  "spec_entry_errors ev u d \<noteq> [] \<longleftrightarrow>
     de_listing d = None
     \<or> de_listing d = Some NotADict
     \<or> (\<exists>lid. de_listing d = Some (ListingDict lid) \<and> get_listing_by_id ev u lid = None)
     \<or> de_id d = None"
  by (auto simp: spec_entry_errors_def split: option.splits listing_value.splits)

text \<open>
  So a payload of dictionaries with dictionaries under \<open>listing\<close> is rejected as a
  whole: when one of its entries has no \<open>listing\<close>, or a listing that does not resolve
  for the username, or no \<open>id\<close>, the errors of all entries are returned and the state
  is the one the call started in.
\<close>

lemma batch_update_rejects_dict_payload:
  assumes "\<forall>d \<in> set data. de_listing d \<noteq> Some NotADict"
    and "d \<in> set data"
    and "de_listing d = None
         \<or> (\<exists>lid. de_listing d = Some (ListingDict lid)
                  \<and> get_listing_by_id ev username lid = None)
         \<or> de_id d = None"
  shows "batch_update_user_library_entry ev username data s
           = (Inr (Some (concat (map (spec_entry_errors ev username) data)), None), s)
         \<and> concat (map (spec_entry_errors ev username) data) \<noteq> []"
proof -
  let ?errs = "concat (map (spec_entry_errors ev username) data)"
  from assms(3) have "spec_entry_errors ev username d \<noteq> []"
    by (auto simp: spec_entry_errors_fails)
  with assms(2) have ne: "?errs \<noteq> []"
    by auto
  from validate_loop_dicts [OF assms(1), of ev username "[]" "[]"]
  obtain vd where "validate_loop ev username data [] [] = Inr (vd, ?errs)"
    by auto
  with ne show ?thesis
    by (simp add: batch_update_user_library_entry_def)
qed

text \<open>
  The second of three entries names listing 9, which does not exist, and has no id: both
  errors are returned and bob's two bookmarks stay as they are.
\<close>

lemma batch_update_rejects_dict_payload_example:
  "batch_update_user_library_entry env0 ''bob'' bad_batch s_two
     = (Inr (Some [''Listing obj not found'', ''Missing id from data entry''], None), s_two)"
proof -
  have a: "\<forall>d \<in> set bad_batch. de_listing d \<noteq> Some NotADict"
    "bad_batch ! 1 \<in> set bad_batch"
    "de_id (bad_batch ! 1) = None"
    by (simp_all add: bad_batch_def)
  have c: "concat (map (spec_entry_errors env0 ''bob'') bad_batch)
             = [''Listing obj not found'', ''Missing id from data entry'']"
    by (simp add: bad_batch_def env0_def spec_entry_errors_def)
  show ?thesis
    using batch_update_rejects_dict_payload [of bad_batch "bad_batch ! 1" env0 "''bob''" s_two]
      a c
    by simp
qed

text \<open>
  Whether validation returns errors or raises, nothing is written: with an entry that
  fails validation in the payload, the state after the call is the state before it.
\<close>

lemma batch_update_failed_validation_keeps_state:
  assumes "d \<in> set data"
    and "de_listing d = None
         \<or> de_listing d = Some NotADict
         \<or> (\<exists>lid. de_listing d = Some (ListingDict lid)
                  \<and> get_listing_by_id ev username lid = None)
         \<or> de_id d = None"
  shows "snd (batch_update_user_library_entry ev username data s) = s"
proof (cases "\<exists>d \<in> set data. de_listing d = Some NotADict")
  case True
  then have "validate_loop ev username data [] [] = Inl AttributeError"
    by (rule validate_loop_fault)
  then show ?thesis
    by (simp add: batch_update_user_library_entry_def)
next
  case False
  then have dicts: "\<forall>d \<in> set data. de_listing d \<noteq> Some NotADict"
    by simp
  with assms have "de_listing d = None
         \<or> (\<exists>lid. de_listing d = Some (ListingDict lid)
                  \<and> get_listing_by_id ev username lid = None)
         \<or> de_id d = None"
    by auto
  with dicts assms(1) show ?thesis
    using batch_update_rejects_dict_payload [of data d ev username s] by simp
qed

section \<open>C1: a batch with an invalid entry is rejected as a whole\<close>

text \<open>
  C1 asks that a batch with an entry that fails validation comes back with the list
  of the errors of all its entries, and that nothing is written. The source does the
  second always and the first only when every value under \<open>listing\<close> is a dictionary.
  In the payload \<open>null_listing_batch\<close> the first entry has no \<open>id\<close>, so it fails
  validation; the second has \<open>null\<close> under \<open>listing\<close>, and
  \<open>data_entry.get('listing', {}).get('id')\<close> raises \<open>AttributeError\<close> in the
  validation loop. The call raises and returns no list of errors, where the spec asks
  for the two errors of \<open>spec_entry_errors\<close>; the state is unchanged.
\<close>

theorem batch_update_null_listing_faults:
  "de_id (null_listing_batch ! 0) = None
   \<and> concat (map (spec_entry_errors env0 ''bob'') null_listing_batch)
       = [''Missing id from data entry'', ''Listing obj not found'']
   \<and> batch_update_user_library_entry env0 ''bob'' null_listing_batch s_two
       = (Inl AttributeError, s_two)"
  by (simp add: null_listing_batch_def spec_entry_errors_def env0_def Let_def
        batch_update_user_library_entry_def)

section \<open>C10: the apply phase is not atomic\<close>

text \<open>
  C10. Validation looks at the payload and the listings only; it never looks the id up.
  The payload \<open>move_batch\<close> passes validation with three entries although there is no
  bookmark 2. The apply loop saves bookmark 1, then \<open>get_library_entry_by_id 2\<close>
  returns \<open>None\<close> and setting the folder on it raises \<open>AttributeError\<close>: bookmark 1
  stays moved and bookmark 3 is as it was.
\<close>

theorem batch_update_apply_phase_not_atomic:
  "validate_loop env0 ''bob'' move_batch [] []
     = Inr ([\<lparr>nd_listing = Some bread_basket, nd_id = Some 1, nd_folder = Some ''work''\<rparr>,
         \<lparr>nd_listing = Some bread_basket, nd_id = Some 2, nd_folder = Some ''work''\<rparr>,
         \<lparr>nd_listing = Some bread_basket, nd_id = Some 3, nd_folder = Some ''work''\<rparr>], [])
   \<and> fst (get_library_entry_by_id 2 s_two) = Inr None
   \<and> fst (batch_update_user_library_entry env0 ''bob'' move_batch s_two) = Inl AttributeError
   \<and> entries s_two = [bookmark1, bookmark3]
   \<and> entries (snd (batch_update_user_library_entry env0 ''bob'' move_batch s_two))
       = [bookmark1\<lparr>entry_folder := Some ''work'', entry_listing := bread_basket\<rparr>, bookmark3]"
proof -
  have v: "validate_loop env0 ''bob'' move_batch [] []
     = Inr ([\<lparr>nd_listing = Some bread_basket, nd_id = Some 1, nd_folder = Some ''work''\<rparr>,
         \<lparr>nd_listing = Some bread_basket, nd_id = Some 2, nd_folder = Some ''work''\<rparr>,
         \<lparr>nd_listing = Some bread_basket, nd_id = Some 3, nd_folder = Some ''work''\<rparr>], [])"
    by (simp add: move_batch_def env0_def Let_def)
  have g: "fst (get_library_entry_by_id 2 s_two) = Inr None"
    by (simp add: get_library_entry_by_id_def s_two_def str_int_2 bookmark1_def bookmark3_def
          air_mail_def cache_get_def run_query_def Let_def)
  have r: "fst (batch_update_user_library_entry env0 ''bob'' move_batch s_two)
             = Inl AttributeError"
    by code_simp
  have e: "entries (snd (batch_update_user_library_entry env0 ''bob'' move_batch s_two))
       = [bookmark1\<lparr>entry_folder := Some ''work'', entry_listing := bread_basket\<rparr>, bookmark3]"
    by code_simp
  show ?thesis
    using v g r e by (simp add: s_two_def)
qed

text \<open>
  Without the entry for the missing bookmark the same payload goes through: both rows
  are written and the payload comes back as the result.
\<close>

lemma batch_update_valid_batch_example:
  "fst (batch_update_user_library_entry env0 ''bob'' [move_batch ! 0, move_batch ! 2] s_two)
     = Inr (None, Some [move_batch ! 0, move_batch ! 2])
   \<and> entries (snd (batch_update_user_library_entry env0 ''bob''
                      [move_batch ! 0, move_batch ! 2] s_two))
       = [bookmark1\<lparr>entry_folder := Some ''work'', entry_listing := bread_basket\<rparr>,
          bookmark3\<lparr>entry_folder := Some ''work'', entry_listing := bread_basket\<rparr>]"
  by code_simp

section \<open>The import of bookmarks\<close>

text \<open>
  The loop creates one row for every id whose listing resolves, in the order of the
  ids, when the profile exists, and none when it does not; it appends them to its
  accumulator and to the table.
\<close>

lemma import_loop_created:
  "\<exists>created.
     import_loop ev u f ids acc s
       = (acc @ created,
          s\<lparr>entries := entries s @ created, next_id := next_id s + int (length created)\<rparr>)
     \<and> map (\<lambda>e. Some (entry_listing e)) created
         = (if get_profile ev u = None then []
            else filter (\<lambda>x. x \<noteq> None) (map (\<lambda>i. get_listing_by_id ev u (Some i)) ids))
     \<and> list_all (\<lambda>e. Some (entry_owner e) = get_profile ev u \<and> entry_folder e = f) created"
proof (induction ids arbitrary: acc s)
  case Nil
  show ?case by simp
next
  case (Cons i ids)
  show ?case
  proof (cases "get_listing_by_id ev u (Some i) = None \<or> get_profile ev u = None")
    case True
    then have c: "create_self_user_library_entry ev u i f s
                    = (Inl (PyException ''Listing or user not found''), s)"
      by (auto simp: create_self_user_library_entry_def Let_def split: option.splits)
    from Cons.IH [of acc s] obtain created where
      "import_loop ev u f ids acc s
         = (acc @ created,
            s\<lparr>entries := entries s @ created, next_id := next_id s + int (length created)\<rparr>)"
      "map (\<lambda>e. Some (entry_listing e)) created
         = (if get_profile ev u = None then []
            else filter (\<lambda>x. x \<noteq> None) (map (\<lambda>i. get_listing_by_id ev u (Some i)) ids))"
      "list_all (\<lambda>e. Some (entry_owner e) = get_profile ev u \<and> entry_folder e = f) created"
      by blast
    with c True show ?thesis
      by (intro exI [of _ created]) auto
  next
    case False
    then obtain l ow where l: "get_listing_by_id ev u (Some i) = Some l"
      and ow: "get_profile ev u = Some ow"
      by auto
    define entry where
      "entry = \<lparr>entry_id = next_id s, entry_listing = l, entry_owner = ow, entry_folder = f\<rparr>"
    define s1 where "s1 = s\<lparr>entries := entries s @ [entry], next_id := next_id s + 1\<rparr>"
    have c: "create_self_user_library_entry ev u i f s = (Inr entry, s1)"
      using l ow
      by (simp add: create_self_user_library_entry_def save_new_def Let_def entry_def s1_def)
    from Cons.IH [of "acc @ [entry]" s1] obtain created where
      a: "import_loop ev u f ids (acc @ [entry]) s1
         = ((acc @ [entry]) @ created,
            s1\<lparr>entries := entries s1 @ created, next_id := next_id s1 + int (length created)\<rparr>)"
      and b: "map (\<lambda>e. Some (entry_listing e)) created
         = (if get_profile ev u = None then []
            else filter (\<lambda>x. x \<noteq> None) (map (\<lambda>i. get_listing_by_id ev u (Some i)) ids))"
      and d: "list_all (\<lambda>e. Some (entry_owner e) = get_profile ev u \<and> entry_folder e = f) created"
      by blast
    have st: "s1\<lparr>entries := entries s1 @ created, next_id := next_id s1 + int (length created)\<rparr>
            = s\<lparr>entries := entries s @ entry # created,
                 next_id := next_id s + int (length (entry # created))\<rparr>"
      by (simp add: s1_def)
    show ?thesis
    proof (intro exI [of _ "entry # created"] conjI)
      show "import_loop ev u f (i # ids) acc s
              = (acc @ entry # created,
                 s\<lparr>entries := entries s @ entry # created,
                   next_id := next_id s + int (length (entry # created))\<rparr>)"
        using c a st by simp
      show "map (\<lambda>e. Some (entry_listing e)) (entry # created)
         = (if get_profile ev u = None then []
            else filter (\<lambda>x. x \<noteq> None)
                   (map (\<lambda>i. get_listing_by_id ev u (Some i)) (i # ids)))"
        using b l ow by (simp add: entry_def)
      show "list_all (\<lambda>e. Some (entry_owner e) = get_profile ev u \<and> entry_folder e = f)
              (entry # created)"
        using d ow by (simp add: entry_def)
    qed
  qed
qed

lemma import_bookmarks_valid:
  assumes "get_notification_by_id ev u nid = Some n"
    and "notification_type n = ''PEER.BOOKMARK''"
    and "peer_user_username (peer n) = Some u"
    and "truthy (peer_folder_name (peer n))"
    and "peer_bookmark_listing_ids (peer n) = Some ids"
    and "ids \<noteq> []"
  shows "import_bookmarks ev u nid s
           = ((None, Some (fst (import_loop ev u (peer_folder_name (peer n)) ids [] s))),
              dismiss_notification n u
                (snd (import_loop ev u (peer_folder_name (peer n)) ids [] s)))"
  using assms
  by (simp add: import_bookmarks_def Let_def split: prod.splits)

lemma import_bookmarks_invalid:
  assumes "get_notification_by_id ev u nid = None
           \<or> (\<exists>n. get_notification_by_id ev u nid = Some n
                  \<and> (notification_type n \<noteq> ''PEER.BOOKMARK''
                     \<or> peer_user_username (peer n) \<noteq> Some u
                     \<or> \<not> truthy (peer_folder_name (peer n))
                     \<or> peer_bookmark_listing_ids (peer n) = None
                     \<or> peer_bookmark_listing_ids (peer n) = Some []))"
  shows "\<exists>errors. errors \<noteq> [] \<and> import_bookmarks ev u nid s = ((Some errors, None), s)"
  using assms
  by (auto simp: import_bookmarks_def Let_def split: option.splits)

section \<open>C2: the apply phase of the import\<close>

text \<open>
  C2. When the notification is found, is of type \<open>PEER.BOOKMARK\<close>, names the current
  user, and has a non-empty folder name and a non-empty list of listing ids, then
  \<open>import_bookmarks\<close> returns \<open>None\<close> and the list of the rows it created. These rows
  are the new rows of the table; there is one for each id whose listing resolves (none
  when the profile is missing), so the ids whose creation fails are left out and the
  list is at most as long as the list of ids; each has the owner and the folder of the
  import. The log of dismissals has grown by this notification, once.
\<close>

theorem import_bookmarks_apply_phase:
  assumes "get_notification_by_id ev u nid = Some n"
    and "notification_type n = ''PEER.BOOKMARK''"
    and "peer_user_username (peer n) = Some u"
    and "peer_folder_name (peer n) = Some f" and "f \<noteq> []"
    and "peer_bookmark_listing_ids (peer n) = Some ids" and "ids \<noteq> []"
  shows "\<exists>created.
           import_bookmarks ev u nid s
             = ((None, Some created),
                s\<lparr>entries := entries s @ created,
                  next_id := next_id s + int (length created),
                  dismissed := dismissed s @ [(n, u)]\<rparr>)
           \<and> map (\<lambda>e. Some (entry_listing e)) created
               = (if get_profile ev u = None then []
                  else filter (\<lambda>x. x \<noteq> None) (map (\<lambda>i. get_listing_by_id ev u (Some i)) ids))
           \<and> list_all (\<lambda>e. Some (entry_owner e) = get_profile ev u \<and> entry_folder e = Some f)
                created
           \<and> length created \<le> length ids"
proof -
  from import_loop_created [of ev u "Some f" ids "[]" s] obtain created where
    a: "import_loop ev u (Some f) ids [] s
         = (created,
            s\<lparr>entries := entries s @ created, next_id := next_id s + int (length created)\<rparr>)"
    and b: "map (\<lambda>e. Some (entry_listing e)) created
         = (if get_profile ev u = None then []
            else filter (\<lambda>x. x \<noteq> None) (map (\<lambda>i. get_listing_by_id ev u (Some i)) ids))"
    and c: "list_all (\<lambda>e. Some (entry_owner e) = get_profile ev u \<and> entry_folder e = Some f)
              created"
    by auto
  have "length (map (\<lambda>e. Some (entry_listing e)) created)
          \<le> length (map (\<lambda>i. get_listing_by_id ev u (Some i)) ids)"
    unfolding b by (simp only: length_filter_le list.size le0 simp_thms split: if_split)
  then have d: "length created \<le> length ids"
    by simp
  have "import_bookmarks ev u nid s
          = ((None, Some created),
             dismiss_notification n u
               (s\<lparr>entries := entries s @ created,
                  next_id := next_id s + int (length created)\<rparr>))"
    using import_bookmarks_valid [of ev u nid n ids s] assms a
    by (simp add: truthy_def)
  with b c d show ?thesis
    by (intro exI [of _ created]) (simp add: dismiss_notification_def)
qed

text \<open>
  The notification 7 names the listings 1, 9 and 2; listing 9 does not exist. Two rows
  are created and the notification is dismissed.
\<close>

theorem import_bookmarks_apply_phase_witness:
  "\<exists>created.
     import_bookmarks env0 ''bob'' 7 s_empty
       = ((None, Some created),
          s_empty\<lparr>entries := created, next_id := 1 + int (length created),
                   dismissed := [(share_note, ''bob'')]\<rparr>)
     \<and> map entry_listing created = [air_mail, bread_basket]
     \<and> map entry_folder created = [Some ''shared'', Some ''shared'']"
proof -
  have n: "get_notification_by_id env0 ''bob'' 7 = Some share_note"
    by (simp add: env0_def)
  have p: "notification_type share_note = ''PEER.BOOKMARK''"
    "peer_user_username (peer share_note) = Some ''bob''"
    "peer_folder_name (peer share_note) = Some ''shared''"
    "peer_bookmark_listing_ids (peer share_note) = Some [1, 9, 2]"
    by (simp_all add: share_note_def)
  have l: "get_profile env0 ''bob'' = Some bob"
    "map (\<lambda>i. get_listing_by_id env0 ''bob'' (Some i)) [1, 9, 2]
       = [Some air_mail, None, Some bread_basket]"
    by (simp_all add: env0_def)
  have ne: "''shared'' \<noteq> []" "[1, 9, 2] \<noteq> ([] :: int list)"
    by simp_all
  from import_bookmarks_apply_phase [OF n p(1) p(2) p(3) ne(1) p(4) ne(2), of s_empty]
  obtain created where
    a: "import_bookmarks env0 ''bob'' 7 s_empty
          = ((None, Some created),
             s_empty\<lparr>entries := entries s_empty @ created,
               next_id := next_id s_empty + int (length created),
               dismissed := dismissed s_empty @ [(share_note, ''bob'')]\<rparr>)"
    and b0: "map (\<lambda>e. Some (entry_listing e)) created
         = (if get_profile env0 ''bob'' = None then []
            else filter (\<lambda>x. x \<noteq> None)
                   (map (\<lambda>i. get_listing_by_id env0 ''bob'' (Some i)) [1, 9, 2]))"
    and c: "list_all (\<lambda>e. Some (entry_owner e) = get_profile env0 ''bob''
                         \<and> entry_folder e = Some ''shared'') created"
    by blast
  have b: "map (\<lambda>e. Some (entry_listing e)) created = [Some air_mail, Some bread_basket]"
    using b0 unfolding l by simp
  from b obtain e1 e2 where e: "created = [e1, e2]"
    "entry_listing e1 = air_mail" "entry_listing e2 = bread_basket"
    by auto
  with a c show ?thesis
    by (intro exI [of _ created]) (simp add: s_empty_def)
qed

section \<open>C3: a failed validation of the import\<close>



section \<open>C4: the shape of the result of the import\<close>

text \<open>
  C4, as the spec states it, has the list of imported entries non-empty whenever the
  errors are null. The notification 8 names listing 9 only, which does not exist: the
  creation fails, the failure is dropped, and the import returns \<open>None\<close> with the
  empty list.
\<close>

theorem import_bookmarks_empty_result_counterexample:
  "fst (import_bookmarks env0 ''bob'' 8 s_empty) = (None, Some [])"
  by (simp add: import_bookmarks_def env0_def dead_note_def truthy_def Let_def
        create_self_user_library_entry_def)

text \<open>
  C4, amended. \<open>import_bookmarks\<close> returns either a non-empty list of errors with
  \<open>None\<close>, or \<open>None\<close> with a list of entries, which may be empty.
\<close>

theorem import_bookmarks_result_shape:
  "(\<exists>errors. errors \<noteq> [] \<and> fst (import_bookmarks ev u nid s) = (Some errors, None))
   \<or> (\<exists>created. fst (import_bookmarks ev u nid s) = (None, Some created))"
proof (cases "get_notification_by_id ev u nid = None
           \<or> (\<exists>n. get_notification_by_id ev u nid = Some n
                  \<and> (notification_type n \<noteq> ''PEER.BOOKMARK''
                     \<or> peer_user_username (peer n) \<noteq> Some u
                     \<or> \<not> truthy (peer_folder_name (peer n))
                     \<or> peer_bookmark_listing_ids (peer n) = None
                     \<or> peer_bookmark_listing_ids (peer n) = Some []))")
  case True
  then have "\<exists>errors. errors \<noteq> [] \<and> import_bookmarks ev u nid s = ((Some errors, None), s)"
    by (rule import_bookmarks_invalid)
  then show ?thesis by auto
next
  case False
  then obtain n ids where "get_notification_by_id ev u nid = Some n"
    "notification_type n = ''PEER.BOOKMARK''"
    "peer_user_username (peer n) = Some u"
    "truthy (peer_folder_name (peer n))"
    "peer_bookmark_listing_ids (peer n) = Some ids"
    "ids \<noteq> []"
    by auto
  then show ?thesis
    by (simp add: import_bookmarks_valid)
qed

text \<open>The notification 5 gives errors, the notification 7 gives entries.\<close>

theorem import_bookmarks_result_shape_witness:
  "fst (import_bookmarks env0 ''bob'' 5 s_empty) = (Some [wrong_type_message ''SYSTEM''], None)
   \<and> (\<exists>created. fst (import_bookmarks env0 ''bob'' 7 s_empty) = (None, Some created))"
proof -
  have a: "fst (import_bookmarks env0 ''bob'' 5 s_empty)
             = (Some [wrong_type_message ''SYSTEM''], None)"
    by (simp add: import_bookmarks_def env0_def system_note_def)
  have b: "fst (fst (import_bookmarks env0 ''bob'' 7 s_empty)) = None"
    by code_simp
  show ?thesis
    using import_bookmarks_result_shape [of env0 "''bob''" 7 s_empty] a b
    by auto
qed

end
